theory Spec2Isabelle
  imports Main
begin

section \<open>Time values and the calendar\<close>

text \<open>
  A JavaScript \<open>Date\<close> and a \<open>moment\<close> both wrap one number: the milliseconds since
  1970-01-01T00:00:00. The server's local time zone is taken to be UTC (no offset, no
  daylight saving), so local midnight is a multiple of \<open>msPerDay\<close>.
\<close>

type_synonym timestamp = int

definition msPerDay :: int where
  "msPerDay = 86400000"

text \<open>\<open>Day(t)\<close> and \<open>TimeWithinDay(t)\<close> of ECMAScript.\<close>

definition Day :: "timestamp \<Rightarrow> int" where
  "Day t = t div msPerDay"

definition TimeWithinDay :: "timestamp \<Rightarrow> int" where
  "TimeWithinDay t = t mod msPerDay"

text \<open>
  \<open>moment(x).startOf("day")\<close> and \<open>date.setHours(0, 0, 0, 0)\<close>: the same day at 00:00.
\<close>

definition startOfDay :: "timestamp \<Rightarrow> timestamp" where
  "startOfDay t = t - TimeWithinDay t"

text \<open>
  The proleptic Gregorian calendar on day numbers (day 0 is 1970-01-01). Months are
  counted from 0 as \<open>getMonth()\<close> does; the day of the month is counted from 1.
  The computation works in years that start on 1 March, 400-year eras of 146097 days.
\<close>

definition days_from_civil :: "int \<Rightarrow> int \<Rightarrow> int \<Rightarrow> int" where
  "days_from_civil y m0 d =
     (let y' = (if m0 < 2 then y - 1 else y);
          era = y' div 400;
          yoe = y' mod 400;
          mp = (if m0 < 2 then m0 + 10 else m0 - 2);
          doy = (153 * mp + 2) div 5 + d - 1;
          doe = yoe * 365 + yoe div 4 - yoe div 100 + doy
      in era * 146097 + doe - 719468)"

definition civil_from_days :: "int \<Rightarrow> int \<times> int \<times> int" where
  "civil_from_days z =
     (let z' = z + 719468;
          era = z' div 146097;
          doe = z' mod 146097;
          yoe = (doe - doe div 1460 + doe div 36524 - doe div 146096) div 365;
          doy = doe - (365 * yoe + yoe div 4 - yoe div 100);
          mp = (5 * doy + 2) div 153;
          d = doy - (153 * mp + 2) div 5 + 1;
          m0 = (if mp < 10 then mp + 2 else mp - 10);
          y = yoe + era * 400
      in (if m0 < 2 then y + 1 else y, m0, d))"

text \<open>The getters of \<open>Date\<close> (and of \<open>moment\<close>): \<open>getFullYear\<close>, \<open>getMonth\<close>, \<open>getDate\<close>.\<close>

definition getFullYear :: "timestamp \<Rightarrow> int" where
  "getFullYear t = fst (civil_from_days (Day t))"

definition getMonth :: "timestamp \<Rightarrow> int" where
  "getMonth t = fst (snd (civil_from_days (Day t)))"

definition getDate :: "timestamp \<Rightarrow> int" where
  "getDate t = snd (snd (civil_from_days (Day t)))"

text \<open>
  \<open>MakeDay(year, month, date)\<close> of ECMAScript: a month outside 0..11 carries into the
  year, and a date beyond the month's length runs on into the following month.
\<close>

definition MakeDay :: "int \<Rightarrow> int \<Rightarrow> int \<Rightarrow> int" where
  "MakeDay y m dt = days_from_civil (y + m div 12) (m mod 12) 1 + dt - 1"

definition MakeDate :: "int \<Rightarrow> int \<Rightarrow> timestamp" where
  "MakeDate day time = day * msPerDay + time"

text \<open>\<open>Date.prototype.setMonth(month, date)\<close>, \<open>setMonth(month)\<close> and \<open>setFullYear(year)\<close>.\<close>

definition setMonth2 :: "timestamp \<Rightarrow> int \<Rightarrow> int \<Rightarrow> timestamp" where
  "setMonth2 t m dt = MakeDate (MakeDay (getFullYear t) m dt) (TimeWithinDay t)"

definition setMonth :: "timestamp \<Rightarrow> int \<Rightarrow> timestamp" where
  "setMonth t m = setMonth2 t m (getDate t)"

definition setFullYear :: "timestamp \<Rightarrow> int \<Rightarrow> timestamp" where
  "setFullYear t y = MakeDate (MakeDay y (getMonth t) (getDate t)) (TimeWithinDay t)"

text \<open>
  \<open>toDateString()\<close> prints the calendar day only (the weekday is a function of it):
  the model keeps year, month (from 0) and day of the month.
\<close>

definition toDateString :: "timestamp \<Rightarrow> int \<times> int \<times> int" where
  "toDateString t = civil_from_days (Day t)"

text \<open>Midnight of a calendar day, with the month written 1..12 as in a date literal.\<close>

definition utc :: "int \<Rightarrow> int \<Rightarrow> int \<Rightarrow> timestamp" where
  "utc y m d = MakeDate (days_from_civil y (m - 1) d) 0"

subsection \<open>The \<open>moment\<close> library\<close>

text \<open>
  \<open>moment#add(n, "months")\<close> moves the month and clamps the day of the month to the
  length of the target month; \<open>add(n, "years")\<close> is \<open>add(12 * n, "months")\<close>;
  \<open>add(n, "days")\<close> moves on by n calendar days; \<open>a.isBefore(b)\<close> compares the two
  instants.
\<close>

definition isLeapYear :: "int \<Rightarrow> bool" where
  "isLeapYear y = ((y mod 4 = 0 \<and> y mod 100 \<noteq> 0) \<or> y mod 400 = 0)"

definition daysInMonth :: "int \<Rightarrow> int \<Rightarrow> int" where
  "daysInMonth y m =
     (let modMonth = m mod 12;
          y' = y + (m - modMonth) div 12
      in if modMonth = 1 then (if isLeapYear y' then 29 else 28)
         else 31 - ((modMonth mod 7) mod 2))"

definition moment_setMonth :: "timestamp \<Rightarrow> int \<Rightarrow> timestamp" where
  "moment_setMonth t v =
     (let dt = getDate t;
          dt' = (if dt < 29 then dt else min dt (daysInMonth (getFullYear t) v))
      in setMonth2 t v dt')"

definition add_months :: "int \<Rightarrow> timestamp \<Rightarrow> timestamp" where
  "add_months n t = moment_setMonth t (getMonth t + n)"

definition add_years :: "int \<Rightarrow> timestamp \<Rightarrow> timestamp" where
  "add_years n t = add_months (12 * n) t"

definition add_days :: "int \<Rightarrow> timestamp \<Rightarrow> timestamp" where
  "add_days n t = t + n * msPerDay"

definition isBefore :: "timestamp \<Rightarrow> timestamp \<Rightarrow> bool" where
  "isBefore a b = (a < b)"

section \<open>Strings\<close>

text \<open>\<open>String.prototype.includes\<close>: the argument occurs as a contiguous substring.\<close>

fun startsWith :: "string \<Rightarrow> string \<Rightarrow> bool" where
  "startsWith s [] = True"
| "startsWith [] (c # sub) = False"
| "startsWith (d # s) (c # sub) = (d = c \<and> startsWith s sub)"

fun includes_str :: "string \<Rightarrow> string \<Rightarrow> bool" where
  "includes_str [] sub = (sub = [])"
| "includes_str (d # s) sub = (startsWith (d # s) sub \<or> includes_str s sub)"

section \<open>The subscriber listing: due date and lapse (GET /get-users)\<close>

text \<open>
  The body of the \<open>forEach\<close> over the selected rows. \<open>computeDueDate\<close> is the final
  value of the local variable \<open>dueDate\<close> (\<open>None\<close> is JavaScript's \<open>undefined\<close>): the
  "paid" branch runs first, the free-trial branch second and overrides it.
\<close>

definition computeDueDate :: "string \<Rightarrow> string \<Rightarrow> timestamp \<Rightarrow> timestamp option" where
  "computeDueDate invoice_status plan updated_at =
     (let updatedAt = startOfDay updated_at;
          dueDate = None;
          dueDate = (if invoice_status = ''paid'' then
                       (if includes_str plan ''Monthly'' then Some (add_months 1 updatedAt)
                        else if includes_str plan ''6-Month'' then Some (add_months 6 updatedAt)
                        else if includes_str plan ''Yearly'' then Some (add_years 1 updatedAt)
                        else dueDate)
                     else dueDate);
          dueDate = (if invoice_status = ''Free'' \<and> plan = ''Free Trial''
                     then Some (add_days 7 updatedAt) else dueDate)
      in dueDate)"

text \<open>
  The test \<open>dueDate && dueDate.isBefore(currentDate)\<close> with
  \<open>currentDate = moment().startOf("day")\<close>; a moment object is truthy, \<open>undefined\<close> is not.
\<close>

definition hasLapsed :: "string \<Rightarrow> string \<Rightarrow> timestamp \<Rightarrow> timestamp \<Rightarrow> bool" where
  "hasLapsed invoice_status plan updated_at now =
     (let currentDate = startOfDay now
      in case computeDueDate invoice_status plan updated_at of
           None \<Rightarrow> False
         | Some dueDate \<Rightarrow> isBefore dueDate currentDate)"

section \<open>The users table\<close>

text \<open>
  One row of table \<open>users\<close>, with the columns the statements of the server name. A
  \<open>SELECT\<close> with a column list returns a projection of the row; the handlers read only
  the columns they selected, so the model hands them the row.
\<close>

record user =
  user_id :: nat
  name :: string
  email :: string
  phone :: string
  plan :: string
  Price :: string
  invoice :: string
  invoice_status :: string
  updated_at :: timestamp

text \<open>
  No statement of the server assigns \<open>updated_at\<close>, and the table's declaration is
  not part of the sources. What an \<open>UPDATE\<close> leaves in that column is therefore a
  parameter: a column rule gives it from the clock, the row before the statement and
  the row with the assigned columns. Two rules a MySQL table may declare are written
  out: a plain column, and \<open>ON UPDATE CURRENT_TIMESTAMP\<close>, which refreshes the column
  when the statement changes some other column of the row and not otherwise.
\<close>

type_synonym column_rule = "timestamp \<Rightarrow> user \<Rightarrow> user \<Rightarrow> timestamp"

definition plain_column :: column_rule where
  "plain_column now old new = updated_at old"

definition on_update_current_timestamp :: column_rule where
  "on_update_current_timestamp now old new = (if new = old then updated_at old else now)"

definition sql_update ::
  "column_rule \<Rightarrow> timestamp \<Rightarrow> (user \<Rightarrow> bool) \<Rightarrow> (user \<Rightarrow> user) \<Rightarrow> user list \<Rightarrow> user list" where
  "sql_update rule now wh assign rows =
     map (\<lambda>u. if wh u then (assign u)\<lparr>updated_at := rule now u (assign u)\<rparr> else u) rows"

definition affectedRows :: "(user \<Rightarrow> bool) \<Rightarrow> user list \<Rightarrow> nat" where
  "affectedRows wh rows = length (filter wh rows)"

section \<open>Responses, mail and the console\<close>

datatype body = Users_json "user list" | Error_json string | Message_json string

datatype response = Response nat body

text \<open>
  The HTML bodies are templates with holes; the model keeps the template and the values
  that fill it. An entry of \<open>upcomingPayments\<close> is name, email, plan, dueDate, phone.
\<close>

datatype upcoming = Upcoming string string string "int \<times> int \<times> int" string

datatype html_body =
    Payment_confirmed string "int \<times> int \<times> int" "int \<times> int \<times> int"
  | Renewal_reminder string "int \<times> int \<times> int"
  | Upcoming_summary "upcoming list"

record mail =
  mail_to :: string
  mail_subject :: "string option"
  mail_html :: "html_body option"

text \<open>
  \<open>transporter.sendMail\<close> either resolves (\<open>True\<close>) or rejects (\<open>False\<close>); every call
  sits in a \<open>try\<close>/\<open>catch\<close> that writes one console line either way.
\<close>

type_synonym transport = "mail \<Rightarrow> bool"

datatype console_line =
    Email_sent
  | Email_sending_error
  | Reminder_sent string
  | Reminder_failed string
  | Summary_sent
  | Summary_failed
  | DB_error

record effects =
  store :: "user list"
  attempted :: "mail list"
  console :: "console_line list"

section \<open>GET /get-users\<close>

text \<open>The \<open>forEach\<close> that pushes the id of every lapsed row onto \<open>updates\<close>.\<close>

fun forEach_updates :: "timestamp \<Rightarrow> user list \<Rightarrow> nat list \<Rightarrow> nat list" where
  "forEach_updates now [] updates = updates"
| "forEach_updates now (user # results) updates =
     forEach_updates now results
       (if hasLapsed (invoice_status user) (plan user) (updated_at user) now
        then updates @ [user_id user] else updates)"

text \<open>
  The handler behind \<open>verifyToken\<close>. \<open>err\<close>, \<open>updateErr\<close> and \<open>reQueryErr\<close> say whether
  the first \<open>SELECT\<close>, the \<open>UPDATE\<close> and the second \<open>SELECT\<close> fail. The result is the
  response and the table afterwards.
\<close>

definition get_users ::
  "column_rule \<Rightarrow> timestamp \<Rightarrow> bool \<Rightarrow> bool \<Rightarrow> bool \<Rightarrow> user list \<Rightarrow> response \<times> user list" where
  "get_users rule now err updateErr reQueryErr db =
     (if err then (Response 500 (Error_json ''Query error''), db)
      else
        let results = db;
            updates = forEach_updates now results []
        in if length updates > 0 then
             (if updateErr then (Response 500 (Error_json ''Update error''), db)
              else
                let db' = sql_update rule now (\<lambda>u. user_id u \<in> set updates)
                            (\<lambda>u. u\<lparr>invoice_status := ''pending''\<rparr>) db
                in if reQueryErr then (Response 500 (Error_json ''Final query error''), db')
                   else (Response 200 (Users_json db'), db'))
           else (Response 200 (Users_json results), db))"

section \<open>PUT /update-status/:id\<close>

datatype plan_duration = Months int | Years int

definition getPlanDuration :: "string \<Rightarrow> plan_duration option" where
  "getPlanDuration p =
     (if includes_str p ''Monthly'' then Some (Months 1)
      else if includes_str p ''6-Month'' then Some (Months 6)
      else if includes_str p ''Yearly'' then Some (Years 1)
      else None)"

text \<open>
  Step 3 of the handler: \<open>endDate\<close> starts as \<open>new Date()\<close> and is moved only when the
  status is "paid" and the plan has a duration.
\<close>

definition status_endDate :: "string \<Rightarrow> string \<Rightarrow> timestamp \<Rightarrow> timestamp" where
  "status_endDate status p now =
     (let endDate = now
      in if status = ''paid'' then
           (case getPlanDuration p of
              None \<Rightarrow> endDate
            | Some (Months n) \<Rightarrow> setMonth endDate (getMonth endDate + n)
            | Some (Years n) \<Rightarrow> setFullYear endDate (getFullYear endDate + n))
         else endDate)"

text \<open>Step 4: \<open>subject\<close> and \<open>html\<close> are assigned for "paid" only; the mail is sent always.\<close>

definition status_mail :: "string \<Rightarrow> user \<Rightarrow> timestamp \<Rightarrow> mail" where
  "status_mail status user now =
     (let startDate = now;
          endDate = status_endDate status (plan user) now;
          subject = (if status = ''paid'' then Some ''Your Payment is Confirmed!'' else None);
          html = (if status = ''paid''
                  then Some (Payment_confirmed (name user)
                               (toDateString startDate) (toDateString endDate))
                  else None)
      in \<lparr>mail_to = email user, mail_subject = subject, mail_html = html\<rparr>)"

text \<open>
  The handler behind \<open>verifyToken\<close>. \<open>status\<close> is \<open>req.body.status\<close> (\<open>None\<close> when the
  body has none; the empty string is falsy too); \<open>err\<close> and \<open>err2\<close> say whether the
  \<open>SELECT\<close> and the \<open>UPDATE\<close> fail.
\<close>

definition update_status ::
  "column_rule \<Rightarrow> transport \<Rightarrow> timestamp \<Rightarrow> bool \<Rightarrow> bool \<Rightarrow> nat \<Rightarrow> string option \<Rightarrow> user list
     \<Rightarrow> response \<times> effects" where
  "update_status rule sendMail now err err2 ident status db =
     (let quiet = \<lparr>store = db, attempted = [], console = []\<rparr>
      in case status of
           None \<Rightarrow> (Response 400 (Error_json ''Invoice status required''), quiet)
         | Some st \<Rightarrow>
             if st = [] then (Response 400 (Error_json ''Invoice status required''), quiet)
             else if err then (Response 500 (Error_json ''Database error''), quiet)
             else
               let results = filter (\<lambda>u. user_id u = ident) db
               in if length results = 0
                  then (Response 404 (Error_json ''User not found''), quiet)
                  else
                    let user = hd results
                    in if err2 then (Response 500 (Error_json ''Update failed''), quiet)
                       else
                         let db' = sql_update rule now (\<lambda>u. user_id u = ident)
                                     (\<lambda>u. u\<lparr>invoice_status := st\<rparr>) db
                         in if affectedRows (\<lambda>u. user_id u = ident) db = 0
                            then (Response 404 (Error_json ''User not found''),
                                  quiet\<lparr>store := db'\<rparr>)
                            else
                              let m = status_mail st user now
                              in (Response 200 (Message_json ''Status updated and email sent''),
                                  \<lparr>store = db', attempted = [m],
                                   console = [if sendMail m then Email_sent
                                              else Email_sending_error]\<rparr>))"

section \<open>The daily reminder sweep (sendReminderEmails)\<close>

text \<open>
  \<open>endDate\<close> of the loop body: a copy of the day-truncated \<open>updated_at\<close>, moved by the
  first keyword the plan contains, and left where it is when the plan contains none.
\<close>

definition reminder_endDate :: "string \<Rightarrow> timestamp \<Rightarrow> timestamp" where
  "reminder_endDate p upd =
     (let startDate = startOfDay upd;
          endDate = startDate
      in if includes_str p ''Monthly'' then setMonth endDate (getMonth endDate + 1)
         else if includes_str p ''6-Month'' then setMonth endDate (getMonth endDate + 6)
         else if includes_str p ''Yearly'' then setFullYear endDate (getFullYear endDate + 1)
         else endDate)"

text \<open>
  \<open>diffInDays === 2\<close>, where \<open>diffInDays = diffInTime / (1000 * 3600 * 24)\<close>: both
  operands are whole numbers far below \<open>2 ^ 53\<close>, so the quotient is 2 exactly when
  \<open>diffInTime\<close> is twice \<open>msPerDay\<close>.
\<close>

definition isReminderDue :: "string \<Rightarrow> timestamp \<Rightarrow> timestamp \<Rightarrow> bool" where
  "isReminderDue p upd today =
     (let diffInTime = reminder_endDate p upd - today
      in diffInTime = 2 * msPerDay)"

text \<open>The subject lines are kept without their leading pictograph.\<close>

definition reminder_mail :: "user \<Rightarrow> mail" where
  "reminder_mail user =
     \<lparr>mail_to = email user,
      mail_subject = Some ''Subscription Renewal Reminder'',
      mail_html = Some (Renewal_reminder (name user)
                          (toDateString (reminder_endDate (plan user) (updated_at user))))\<rparr>"

record sweep =
  upcomingPayments :: "upcoming list"
  reminders :: "mail list"
  lines :: "console_line list"

text \<open>The \<open>for ... of\<close> loop over the selected rows, one \<open>await\<close> at a time.\<close>

fun reminder_loop :: "transport \<Rightarrow> timestamp \<Rightarrow> user list \<Rightarrow> sweep \<Rightarrow> sweep" where
  "reminder_loop sendMail today [] s = s"
| "reminder_loop sendMail today (user # users) s =
     reminder_loop sendMail today users
       (if isReminderDue (plan user) (updated_at user) today then
          s\<lparr>upcomingPayments := upcomingPayments s @
               [Upcoming (name user) (email user) (plan user)
                  (toDateString (reminder_endDate (plan user) (updated_at user))) (phone user)],
            reminders := reminders s @ [reminder_mail user],
            lines := lines s @
               [if sendMail (reminder_mail user) then Reminder_sent (email user)
                else Reminder_failed (email user)]\<rparr>
        else s)"

text \<open>
  The whole job: \<open>err\<close> says whether the \<open>SELECT\<close> fails, \<open>self\<close> is \<open>EMAIL_USER\<close>. The
  summary goes out after the loop when some reminder was due.
\<close>

definition sendReminderEmails ::
  "transport \<Rightarrow> string \<Rightarrow> timestamp \<Rightarrow> bool \<Rightarrow> user list \<Rightarrow> sweep" where
  "sendReminderEmails sendMail self now err db =
     (if err then \<lparr>upcomingPayments = [], reminders = [], lines = [DB_error]\<rparr>
      else
        let users = filter (\<lambda>u. invoice_status u = ''paid'') db;
            today = startOfDay now;
            s = reminder_loop sendMail today users
                  \<lparr>upcomingPayments = [], reminders = [], lines = []\<rparr>
        in if length (upcomingPayments s) > 0 then
             (let m = \<lparr>mail_to = self,
                       mail_subject = Some ''Reminder: Upcoming Subscription Payments (in 2 days)'',
                       mail_html = Some (Upcoming_summary (upcomingPayments s))\<rparr>
              in s\<lparr>reminders := reminders s @ [m],
                   lines := lines s @ [if sendMail m then Summary_sent else Summary_failed]\<rparr>)
           else s)"

section \<open>Example rows\<close>

text \<open>
  Subscribers used in the concrete checks below: one who paid for a monthly plan on
  31 January 2024, one on a plan that contains none of the three keywords, and one who
  paid for a yearly plan on 2 March 2023.
\<close>

definition row_jan31 :: user where
  "row_jan31 = \<lparr>user_id = 1, name = ''Ann'', email = ''ann@example.org'', phone = ''55501'',
     plan = ''Monthly'', Price = ''10'', invoice = ''INV-1'', invoice_status = ''paid'',
     updated_at = utc 2024 1 31 + 3600000\<rparr>"

definition row_basic :: user where
  "row_basic = \<lparr>user_id = 2, name = ''Bob'', email = ''bob@example.org'', phone = ''55502'',
     plan = ''Basic'', Price = ''5'', invoice = ''INV-2'', invoice_status = ''pending'',
     updated_at = utc 2024 1 1\<rparr>"

definition row_yearly :: user where
  "row_yearly = \<lparr>user_id = 3, name = ''Cy'', email = ''cy@example.org'', phone = ''55503'',
     plan = ''Yearly Plan'', Price = ''90'', invoice = ''INV-3'', invoice_status = ''paid'',
     updated_at = utc 2023 3 2 + 60000\<rparr>"

text \<open>A transport on which every send resolves, and one on which every send rejects.\<close>

definition delivering :: transport where
  "delivering m = True"

definition failing :: transport where
  "failing m = False"

section \<open>Basic facts\<close>

lemma msPerDay_pos: "0 < msPerDay"
  by (simp add: msPerDay_def)

lemma startOfDay_eq: "startOfDay t = msPerDay * (t div msPerDay)"
  unfolding startOfDay_def TimeWithinDay_def
  by (simp add: minus_mod_eq_mult_div)

lemma startOfDay_mono: "a \<le> b \<Longrightarrow> startOfDay a \<le> startOfDay b"
  unfolding startOfDay_eq using msPerDay_pos
  by (simp add: zdiv_mono1)

lemma startsWith_iff: "startsWith s sub \<longleftrightarrow> (\<exists>q. s = sub @ q)"
  by (induction s sub rule: startsWith.induct) auto

lemma includes_str_iff: "includes_str s sub \<longleftrightarrow> (\<exists>p q. s = p @ sub @ q)"
proof (induction s)
  case Nil
  then show ?case by auto
next
  case (Cons d s)
  show ?case
  proof
    assume "includes_str (d # s) sub"
    then consider "startsWith (d # s) sub" | "includes_str s sub" by auto
    then show "\<exists>p q. d # s = p @ sub @ q"
    proof cases
      case 1
      then obtain q where "d # s = sub @ q" by (auto simp: startsWith_iff)
      then have "d # s = [] @ sub @ q" by simp
      then show ?thesis by blast
    next
      case 2
      then obtain p q where "s = p @ sub @ q" using Cons.IH by blast
      then have "d # s = (d # p) @ sub @ q" by simp
      then show ?thesis by blast
    qed
  next
    assume "\<exists>p q. d # s = p @ sub @ q"
    then obtain p q where pq: "d # s = p @ sub @ q" by blast
    show "includes_str (d # s) sub"
    proof (cases p)
      case Nil
      with pq have "startsWith (d # s) sub" by (auto simp: startsWith_iff)
      then show ?thesis by simp
    next
      case (Cons a p')
      with pq have "s = p' @ sub @ q" by simp
      then have "includes_str s sub" using Cons.IH by blast
      then show ?thesis by simp
    qed
  qed
qed

lemma forEach_updates_eq:
  "forEach_updates now rows acc =
     acc @ map user_id (filter (\<lambda>u. hasLapsed (invoice_status u) (plan u) (updated_at u) now) rows)"
  by (induction rows arbitrary: acc) auto

lemma hasLapsed_iff:
  "hasLapsed s p d today \<longleftrightarrow> (\<exists>due. computeDueDate s p d = Some due \<and> due < startOfDay today)"
  by (simp add: hasLapsed_def isBefore_def split: option.splits)

lemmas calendar_defs =
  utc_def MakeDate_def MakeDay_def days_from_civil_def civil_from_days_def Day_def
  TimeWithinDay_def startOfDay_def msPerDay_def getFullYear_def getMonth_def getDate_def
  setMonth2_def setMonth_def setFullYear_def daysInMonth_def isLeapYear_def
  moment_setMonth_def add_months_def add_years_def add_days_def isBefore_def toDateString_def

lemma epoch_2024_01_31:
  "utc 2024 1 31 = 1706659200000 \<and> toDateString 1706659200000 = (2024, 0, 31)
   \<and> toDateString (utc 1970 1 1) = (1970, 0, 1) \<and> utc 1970 1 1 = 0"
  by code_simp

lemma six_month_plan_2024_01_01:
  "computeDueDate ''paid'' ''6-Month Plan'' (utc 2024 1 1) = Some (utc 2024 7 1)
   \<and> reminder_endDate ''6-Month Plan'' (utc 2024 1 1) = utc 2024 7 1
   \<and> isReminderDue ''6-Month Plan'' (utc 2024 1 1) (utc 2024 6 29)
   \<and> \<not> isReminderDue ''6-Month Plan'' (utc 2024 1 1) (utc 2024 6 28)
   \<and> \<not> isReminderDue ''6-Month Plan'' (utc 2024 1 1) (utc 2024 6 30)"
  by code_simp

lemma computeDueDate_paid:
  "computeDueDate ''paid'' p d =
     (if includes_str p ''Monthly'' then Some (add_months 1 (startOfDay d))
      else if includes_str p ''6-Month'' then Some (add_months 6 (startOfDay d))
      else if includes_str p ''Yearly'' then Some (add_years 1 (startOfDay d))
      else None)"
  by (simp add: computeDueDate_def)

text \<open>
  Where the three computations of the end of a paid period meet: the status update
  always prints the day the sweep computes, and the listing's due date is the sweep's
  end date whenever the plan has a keyword and the start day of the month is below 29.
\<close>

lemma Day_startOfDay: "Day (startOfDay t) = Day t"
  using msPerDay_pos by (simp add: startOfDay_eq Day_def)

lemma TimeWithinDay_startOfDay: "TimeWithinDay (startOfDay t) = 0"
  by (simp add: startOfDay_eq TimeWithinDay_def)

lemma Day_MakeDate: "Day (MakeDate k (TimeWithinDay t)) = k"
proof -
  have "0 \<le> t mod msPerDay" "t mod msPerDay < msPerDay"
    using msPerDay_pos by simp_all
  then have "(k * msPerDay + t mod msPerDay) div msPerDay = k"
    using msPerDay_pos by (simp add: div_pos_pos_trivial)
  then show ?thesis by (simp add: Day_def MakeDate_def TimeWithinDay_def)
qed

lemma getters_startOfDay:
  "getFullYear (startOfDay t) = getFullYear t"
  "getMonth (startOfDay t) = getMonth t"
  "getDate (startOfDay t) = getDate t"
  by (simp_all add: getFullYear_def getMonth_def getDate_def Day_startOfDay)

lemma moment_setMonth_before_29: "getDate t < 29 \<Longrightarrow> moment_setMonth t v = setMonth t v"
  by (simp add: moment_setMonth_def setMonth_def Let_def)

lemma MakeDay_next_year: "MakeDay y (m + 12) dt = MakeDay (y + 1) m dt"
proof -
  have "(m + 12) div 12 = m div 12 + 1" by simp
  then have "y + (m + 12) div 12 = y + 1 + m div 12" by simp
  moreover have "(m + 12) mod 12 = m mod 12" by simp
  ultimately show ?thesis by (simp only: MakeDay_def)
qed

lemma add_years_before_29:
  "getDate t < 29 \<Longrightarrow> add_years 1 t = setFullYear t (getFullYear t + 1)"
  by (simp add: add_years_def add_months_def moment_setMonth_def Let_def setMonth2_def
      setFullYear_def MakeDay_next_year)

lemma sites_agree_before_29:
  assumes "getDate updated < 29"
    and "includes_str p ''Monthly'' \<or> includes_str p ''6-Month'' \<or> includes_str p ''Yearly''"
  shows "computeDueDate ''paid'' p updated = Some (reminder_endDate p updated)"
proof -
  from assms(1) have d: "getDate (startOfDay updated) < 29"
    by (simp add: getters_startOfDay)
  from assms(2) d show ?thesis
    by (auto simp: computeDueDate_paid reminder_endDate_def Let_def add_months_def
        moment_setMonth_before_29 add_years_before_29)
qed

lemma status_update_prints_sweep_day:
  "toDateString (status_endDate ''paid'' p t) = toDateString (reminder_endDate p t)"
  by (simp add: status_endDate_def reminder_endDate_def getPlanDuration_def Let_def
      toDateString_def setMonth_def setMonth2_def setFullYear_def Day_MakeDate Day_startOfDay
      getters_startOfDay)

lemma reminder_two_days_before_due_date:
  assumes "getDate updated < 29"
    and "includes_str p ''Monthly'' \<or> includes_str p ''6-Month'' \<or> includes_str p ''Yearly''"
  shows "isReminderDue p updated today \<longleftrightarrow>
           (\<exists>due. computeDueDate ''paid'' p updated = Some due \<and> due - today = 2 * msPerDay)"
  using sites_agree_before_29 [OF assms] by (simp add: isReminderDue_def Let_def)

lemma computeDueDate_other_status:
  "s \<noteq> ''paid'' \<Longrightarrow> s \<noteq> ''Free'' \<Longrightarrow> computeDueDate s p d = None"
  by (simp add: computeDueDate_def)

lemma hasLapsed_pending: "\<not> hasLapsed ''pending'' p d today"
  by (simp add: hasLapsed_iff computeDueDate_def)

lemma sql_update_length: "length (sql_update rule now wh assign rows) = length rows"
  by (simp add: sql_update_def)

lemma sql_update_nth:
  "i < length rows \<Longrightarrow>
   sql_update rule now wh assign rows ! i =
     (if wh (rows ! i) then (assign (rows ! i))\<lparr>updated_at := rule now (rows ! i) (assign (rows ! i))\<rparr>
      else rows ! i)"
  by (simp add: sql_update_def)

lemma sql_update_mem:
  "r \<in> set (sql_update rule now wh assign rows) \<Longrightarrow>
   (\<exists>u \<in> set rows. (wh u \<and> r = (assign u)\<lparr>updated_at := rule now u (assign u)\<rparr>) \<or> (\<not> wh u \<and> r = u))"
  by (auto simp: sql_update_def)

lemma sql_update_keeps:
  "u \<in> set rows \<Longrightarrow> \<not> wh u \<Longrightarrow> u \<in> set (sql_update rule now wh assign rows)"
  by (force simp: sql_update_def)


lemma get_users_rows:
  assumes "get_users rule now err updateErr reQueryErr db = (Response code (Users_json rows), db')"
  shows "rows = (if forEach_updates now db [] = [] then db
                 else sql_update rule now (\<lambda>u. user_id u \<in> set (forEach_updates now db []))
                        (\<lambda>u. u\<lparr>invoice_status := ''pending''\<rparr>) db)"
  using assms
  by (cases err; cases updateErr; cases reQueryErr; cases "forEach_updates now db [] = []")
     (simp_all add: get_users_def Let_def)

lemma not_lapsed_after_update:
  assumes "r \<in> set (sql_update rule now (\<lambda>u. user_id u \<in> set (forEach_updates now db []))
                        (\<lambda>u. u\<lparr>invoice_status := ''pending''\<rparr>) db)"
  shows "\<not> hasLapsed (invoice_status r) (plan r) (updated_at r) now"
proof -
  from assms obtain u where u: "u \<in> set db"
    and r: "r = (if user_id u \<in> set (forEach_updates now db [])
                 then (u\<lparr>invoice_status := ''pending''\<rparr>)
                        \<lparr>updated_at := rule now u (u\<lparr>invoice_status := ''pending''\<rparr>)\<rparr>
                 else u)"
    unfolding sql_update_def set_map by (rule imageE)
  show ?thesis
  proof (cases "user_id u \<in> set (forEach_updates now db [])")
    case True
    with r have "invoice_status r = ''pending''" by simp
    then show ?thesis by (simp add: hasLapsed_pending)
  next
    case False
    with r have ru: "r = u" by simp
    have "hasLapsed (invoice_status u) (plan u) (updated_at u) now
            \<Longrightarrow> user_id u \<in> set (forEach_updates now db [])"
      using u unfolding forEach_updates_eq by simp
    with False ru show ?thesis by blast
  qed
qed

lemma not_lapsed_no_updates:
  assumes "forEach_updates now db [] = []" and "r \<in> set db"
  shows "\<not> hasLapsed (invoice_status r) (plan r) (updated_at r) now"
proof
  assume "hasLapsed (invoice_status r) (plan r) (updated_at r) now"
  with assms(2) have "user_id r \<in> set (forEach_updates now db [])"
    unfolding forEach_updates_eq by simp
  with assms(1) show False by simp
qed

lemma get_users_store:
  "snd (get_users rule now err updateErr reQueryErr db) = db
   \<or> snd (get_users rule now err updateErr reQueryErr db) =
       sql_update rule now (\<lambda>u. user_id u \<in> set (forEach_updates now db []))
         (\<lambda>u. u\<lparr>invoice_status := ''pending''\<rparr>) db"
  by (cases err; cases updateErr; cases reQueryErr; cases "forEach_updates now db [] = []")
     (simp_all add: get_users_def Let_def)

lemma distinct_ids_same_row:
  assumes "distinct (map user_id rows)" and "u \<in> set rows" and "v \<in> set rows"
    and "user_id v = user_id u"
  shows "v = u"
proof -
  from assms(1) have "inj_on user_id (set rows)" by (simp add: distinct_map)
  with assms(2-4) show ?thesis by (auto dest: inj_onD)
qed

lemma own_id_not_collected:
  assumes "\<not> hasLapsed (invoice_status u) (plan u) (updated_at u) now"
    and "u \<in> set db" and "distinct (map user_id db)"
  shows "user_id u \<notin> set (forEach_updates now db [])"
proof
  assume "user_id u \<in> set (forEach_updates now db [])"
  then obtain v where v: "v \<in> set db" "hasLapsed (invoice_status v) (plan v) (updated_at v) now"
    "user_id v = user_id u"
    unfolding forEach_updates_eq by auto
  from assms(3) assms(2) v(1) v(3) have "v = u" by (rule distinct_ids_same_row)
  with v(2) assms(1) show False by simp
qed

lemma reminder_loop_reminders:
  "reminders (reminder_loop sendMail today users s) =
     reminders s @ map reminder_mail
       (filter (\<lambda>u. isReminderDue (plan u) (updated_at u) today) users)"
  by (induction users arbitrary: s) auto

lemma reminder_loop_lines:
  "lines (reminder_loop sendMail today users s) =
     lines s @ map (\<lambda>u. if sendMail (reminder_mail u) then Reminder_sent (email u)
                         else Reminder_failed (email u))
       (filter (\<lambda>u. isReminderDue (plan u) (updated_at u) today) users)"
  by (induction users arbitrary: s) auto

lemma reminder_loop_append:
  "reminder_loop sendMail today (xs @ ys) s =
     reminder_loop sendMail today ys (reminder_loop sendMail today xs s)"
  by (induction xs arbitrary: s) auto

lemma sendReminderEmails_reminders:
  "\<exists>summary. reminders (sendReminderEmails sendMail self now False db) =
     map reminder_mail
       (filter (\<lambda>u. isReminderDue (plan u) (updated_at u) (startOfDay now))
          (filter (\<lambda>u. invoice_status u = ''paid'') db)) @ summary"
  by (simp add: sendReminderEmails_def Let_def reminder_loop_reminders)

lemma due_jan31: "isReminderDue (plan row_jan31) (updated_at row_jan31) (utc 2024 2 29)"
  by code_simp

lemma due_yearly: "isReminderDue (plan row_yearly) (updated_at row_yearly) (utc 2024 2 29)"
  by code_simp

lemma update_status_done:
  assumes "st \<noteq> []" and "\<not> err" and "\<not> err2" and "filter (\<lambda>u. user_id u = ident) db \<noteq> []"
  shows "update_status rule sendMail now err err2 ident (Some st) db =
     (Response 200 (Message_json ''Status updated and email sent''),
      \<lparr>store = sql_update rule now (\<lambda>u. user_id u = ident) (\<lambda>u. u\<lparr>invoice_status := st\<rparr>) db,
       attempted = [status_mail st (hd (filter (\<lambda>u. user_id u = ident) db)) now],
       console = [if sendMail (status_mail st (hd (filter (\<lambda>u. user_id u = ident) db)) now)
                  then Email_sent else Email_sending_error]\<rparr>)"
  using assms by (simp add: update_status_def affectedRows_def Let_def)

lemma update_status_store:
  "store (snd (update_status rule sendMail now err err2 ident status db)) = db
   \<or> (\<exists>st. status = Some st \<and> st \<noteq> [] \<and> \<not> err \<and> \<not> err2
        \<and> store (snd (update_status rule sendMail now err err2 ident status db)) =
            sql_update rule now (\<lambda>u. user_id u = ident) (\<lambda>u. u\<lparr>invoice_status := st\<rparr>) db)"
  by (cases status; cases err; cases err2; cases "filter (\<lambda>u. user_id u = ident) db = []")
     (auto simp: update_status_def affectedRows_def Let_def)

lemma status_mail_not_paid:
  "st \<noteq> ''paid'' \<Longrightarrow>
   status_mail st user now = \<lparr>mail_to = email user, mail_subject = None, mail_html = None\<rparr>"
  by (simp add: status_mail_def Let_def)

section \<open>Lapse detection in the listing\<close>

text \<open>
  Claim C2. A row has lapsed exactly when its due date is defined and lies strictly
  before the day-truncated today. The ids the listing collects are those of exactly
  these rows. At the boundary of the free trial (status "Free", plan "Free Trial",
  changed on 2024-05-01, today 2024-05-08) the due date is 2024-05-08 and the row has
  not lapsed.
\<close>

theorem hasLapsed_strictly_before_today:
  "(hasLapsed s p d today \<longleftrightarrow>
      (\<exists>due. computeDueDate s p d = Some due \<and> due < startOfDay today))
   \<and> set (forEach_updates today rows []) =
       {user_id u | u. u \<in> set rows \<and>
          (\<exists>due. computeDueDate (invoice_status u) (plan u) (updated_at u) = Some due
                 \<and> due < startOfDay today)}
   \<and> computeDueDate ''Free'' ''Free Trial'' (utc 2024 5 1) = Some (utc 2024 5 8)
   \<and> \<not> hasLapsed ''Free'' ''Free Trial'' (utc 2024 5 1) (utc 2024 5 8)"
proof -
  have a: "hasLapsed s p d today \<longleftrightarrow>
      (\<exists>due. computeDueDate s p d = Some due \<and> due < startOfDay today)"
    by (rule hasLapsed_iff)
  have b: "set (forEach_updates today rows []) =
       {user_id u | u. u \<in> set rows \<and>
          (\<exists>due. computeDueDate (invoice_status u) (plan u) (updated_at u) = Some due
                 \<and> due < startOfDay today)}"
    by (auto simp: forEach_updates_eq hasLapsed_iff)
  have c: "computeDueDate ''Free'' ''Free Trial'' (utc 2024 5 1) = Some (utc 2024 5 8)"
    by (simp add: computeDueDate_def calendar_defs)
  have "\<not> utc 2024 5 8 < startOfDay (utc 2024 5 8)"
    by (simp add: calendar_defs)
  with c have d: "\<not> hasLapsed ''Free'' ''Free Trial'' (utc 2024 5 1) (utc 2024 5 8)"
    unfolding hasLapsed_iff by simp
  from a b c d show ?thesis by blast
qed

theorem hasLapsed_strictly_before_today_witness:
  "hasLapsed ''paid'' ''Monthly Plan'' (utc 2024 1 31) (utc 2024 3 2)
   \<and> \<not> hasLapsed ''paid'' ''Monthly Plan'' (utc 2024 1 31) (utc 2024 2 29)"
proof -
  have due: "computeDueDate ''paid'' ''Monthly Plan'' (utc 2024 1 31) = Some (utc 2024 2 29)"
    by code_simp
  have lt: "utc 2024 2 29 < startOfDay (utc 2024 3 2)"
    by (simp add: calendar_defs)
  have nlt: "\<not> utc 2024 2 29 < startOfDay (utc 2024 2 29)"
    by (simp add: calendar_defs)
  from due lt
    hasLapsed_strictly_before_today
      [of "''paid''" "''Monthly Plan''" "utc 2024 1 31" "utc 2024 3 2" "[]", THEN conjunct1]
  have a: "hasLapsed ''paid'' ''Monthly Plan'' (utc 2024 1 31) (utc 2024 3 2)"
    by blast
  from due nlt
    hasLapsed_strictly_before_today
      [of "''paid''" "''Monthly Plan''" "utc 2024 1 31" "utc 2024 2 29" "[]", THEN conjunct1]
  have b: "\<not> hasLapsed ''paid'' ''Monthly Plan'' (utc 2024 1 31) (utc 2024 2 29)"
    by auto
  from a b show ?thesis by blast
qed

text \<open>
  Claim C4. With status "Free", the plan "Free Trial" gives the day-truncated change
  date plus seven days, and every other plan gives no due date.
\<close>

theorem free_trial_due_date:
  "computeDueDate ''Free'' ''Free Trial'' d = Some (startOfDay d + 7 * msPerDay)
   \<and> (p \<noteq> ''Free Trial'' \<longrightarrow> computeDueDate ''Free'' p d = None)"
  by (simp add: computeDueDate_def add_days_def)

theorem free_trial_due_date_witness:
  "computeDueDate ''Free'' ''Free Trial'' (utc 2024 5 1 + 3600000) = Some (utc 2024 5 8)
   \<and> ''Monthly'' \<noteq> ''Free Trial''
   \<and> computeDueDate ''Free'' ''Monthly'' (utc 2024 5 1 + 3600000) = None"
proof -
  have d: "startOfDay (utc 2024 5 1 + 3600000) + 7 * msPerDay = utc 2024 5 8"
    by (simp add: calendar_defs)
  have n: "''Monthly'' \<noteq> ''Free Trial''"
    by simp
  from free_trial_due_date [of "utc 2024 5 1 + 3600000" "''Monthly''"] d n
  show ?thesis by simp
qed

text \<open>
  Claim C8. Lapse is monotone in today: a row lapsed at \<open>T\<close> is lapsed at every
  later \<open>T'\<close>.
\<close>

theorem hasLapsed_monotone:
  "hasLapsed s p d T \<Longrightarrow> T < T' \<Longrightarrow> hasLapsed s p d T'"
proof -
  assume l: "hasLapsed s p d T" and lt: "T < T'"
  from l obtain due where due: "computeDueDate s p d = Some due" "due < startOfDay T"
    by (auto simp: hasLapsed_iff)
  from lt have "startOfDay T \<le> startOfDay T'" by (simp add: startOfDay_mono)
  with due have "due < startOfDay T'" by simp
  with due(1) show "hasLapsed s p d T'" by (auto simp: hasLapsed_iff)
qed

theorem hasLapsed_monotone_witness:
  "hasLapsed ''paid'' ''Monthly Plan'' (utc 2024 1 31) (utc 2024 3 2)
   \<and> utc 2024 3 2 < utc 2024 3 3
   \<and> hasLapsed ''paid'' ''Monthly Plan'' (utc 2024 1 31) (utc 2024 3 3)"
proof -
  have due: "computeDueDate ''paid'' ''Monthly Plan'' (utc 2024 1 31) = Some (utc 2024 2 29)"
    by code_simp
  have lt: "utc 2024 2 29 < startOfDay (utc 2024 3 2)"
    by (simp add: calendar_defs)
  from due lt have a: "hasLapsed ''paid'' ''Monthly Plan'' (utc 2024 1 31) (utc 2024 3 2)"
    unfolding hasLapsed_iff by blast
  have b: "utc 2024 3 2 < utc 2024 3 3"
    by (simp add: calendar_defs)
  from a b hasLapsed_monotone [OF a b] show ?thesis by blast
qed

text \<open>
  Claim C6. Whenever the listing answers with rows, no row of the answer has a status
  "paid" or "Free" together with a defined due date strictly before today; this holds
  for every table, every clock value and every column rule of \<open>updated_at\<close>.
\<close>

theorem listing_reflects_lapse:
  assumes "get_users rule now err updateErr reQueryErr db = (Response code (Users_json rows), db')"
    and "r \<in> set rows"
  shows "\<not> ((invoice_status r = ''paid'' \<or> invoice_status r = ''Free'')
            \<and> (\<exists>due. computeDueDate (invoice_status r) (plan r) (updated_at r) = Some due
                      \<and> due < startOfDay now))"
proof -
  have "\<not> hasLapsed (invoice_status r) (plan r) (updated_at r) now"
  proof (cases "forEach_updates now db [] = []")
    case True
    with get_users_rows [OF assms(1)] assms(2) have "r \<in> set db" by simp
    with True show ?thesis by (rule not_lapsed_no_updates)
  next
    case False
    with get_users_rows [OF assms(1)] assms(2)
    have "r \<in> set (sql_update rule now (\<lambda>u. user_id u \<in> set (forEach_updates now db []))
                        (\<lambda>u. u\<lparr>invoice_status := ''pending''\<rparr>) db)"
      by simp
    then show ?thesis by (rule not_lapsed_after_update)
  qed
  then show ?thesis unfolding hasLapsed_iff by blast
qed

theorem listing_reflects_lapse_witness:
  "get_users on_update_current_timestamp (utc 2024 3 2 + 7200000) False False False
       [row_jan31, row_basic] =
     (Response 200 (Users_json
        [row_jan31\<lparr>invoice_status := ''pending'', updated_at := utc 2024 3 2 + 7200000\<rparr>,
         row_basic]),
      [row_jan31\<lparr>invoice_status := ''pending'', updated_at := utc 2024 3 2 + 7200000\<rparr>,
       row_basic])
   \<and> \<not> ((invoice_status (row_jan31\<lparr>invoice_status := ''pending'',
                                  updated_at := utc 2024 3 2 + 7200000\<rparr>) = ''paid''
          \<or> invoice_status (row_jan31\<lparr>invoice_status := ''pending'',
                                  updated_at := utc 2024 3 2 + 7200000\<rparr>) = ''Free'')
         \<and> (\<exists>due. computeDueDate ''pending'' ''Monthly'' (utc 2024 3 2 + 7200000) = Some due
                   \<and> due < startOfDay (utc 2024 3 2 + 7200000)))"
proof -
  have g: "get_users on_update_current_timestamp (utc 2024 3 2 + 7200000) False False False
       [row_jan31, row_basic] =
     (Response 200 (Users_json
        [row_jan31\<lparr>invoice_status := ''pending'', updated_at := utc 2024 3 2 + 7200000\<rparr>,
         row_basic]),
      [row_jan31\<lparr>invoice_status := ''pending'', updated_at := utc 2024 3 2 + 7200000\<rparr>,
       row_basic])"
    by code_simp
  have m: "row_jan31\<lparr>invoice_status := ''pending'', updated_at := utc 2024 3 2 + 7200000\<rparr>
      \<in> set [row_jan31\<lparr>invoice_status := ''pending'', updated_at := utc 2024 3 2 + 7200000\<rparr>,
         row_basic]"
    by simp
  from listing_reflects_lapse [OF g m] g show ?thesis
    by (simp add: row_jan31_def)
qed

text \<open>
  Claim C7. A row whose status is neither "paid" nor "Free" has no due date and has
  lapsed on no day. In a table whose ids are distinct the listing does not collect its
  id, leaves the row as it is and returns it unchanged.
\<close>

theorem other_status_never_lapses:
  assumes "invoice_status u \<noteq> ''paid''" and "invoice_status u \<noteq> ''Free''"
  shows "computeDueDate (invoice_status u) (plan u) (updated_at u) = None
     \<and> (\<forall>today. \<not> hasLapsed (invoice_status u) (plan u) (updated_at u) today)
     \<and> (u \<in> set db \<and> distinct (map user_id db) \<longrightarrow>
          user_id u \<notin> set (forEach_updates now db [])
          \<and> u \<in> set (snd (get_users rule now err updateErr reQueryErr db))
          \<and> (\<forall>code rows. fst (get_users rule now err updateErr reQueryErr db)
                               = Response code (Users_json rows) \<longrightarrow> u \<in> set rows))"
proof -
  from assms have none: "computeDueDate (invoice_status u) (plan u) (updated_at u) = None"
    by (rule computeDueDate_other_status)
  then have never: "\<And>today. \<not> hasLapsed (invoice_status u) (plan u) (updated_at u) today"
    by (simp add: hasLapsed_iff)
  have listing: "user_id u \<notin> set (forEach_updates now db [])
          \<and> u \<in> set (snd (get_users rule now err updateErr reQueryErr db))
          \<and> (\<forall>code rows. fst (get_users rule now err updateErr reQueryErr db)
                               = Response code (Users_json rows) \<longrightarrow> u \<in> set rows)"
    if mem: "u \<in> set db" and dist: "distinct (map user_id db)"
  proof -
    from never mem dist have nid: "user_id u \<notin> set (forEach_updates now db [])"
      by (rule own_id_not_collected)
    with mem have kept: "u \<in> set (sql_update rule now
           (\<lambda>u. user_id u \<in> set (forEach_updates now db []))
           (\<lambda>u. u\<lparr>invoice_status := ''pending''\<rparr>) db)"
      by (simp add: sql_update_keeps)
    from get_users_store [of rule now err updateErr reQueryErr db] mem kept
    have st: "u \<in> set (snd (get_users rule now err updateErr reQueryErr db))"
      by auto
    have "u \<in> set rows"
      if "fst (get_users rule now err updateErr reQueryErr db) = Response code (Users_json rows)"
      for code rows
    proof -
      from that have "get_users rule now err updateErr reQueryErr db =
          (Response code (Users_json rows), snd (get_users rule now err updateErr reQueryErr db))"
        by (metis prod.collapse)
      from get_users_rows [OF this] mem kept show ?thesis
        by (simp split: if_splits)
    qed
    with nid st show ?thesis by blast
  qed
  from none never listing show ?thesis by blast
qed

theorem other_status_never_lapses_witness:
  "invoice_status row_basic \<noteq> ''paid'' \<and> invoice_status row_basic \<noteq> ''Free''
   \<and> row_basic \<in> set [row_jan31, row_basic]
   \<and> distinct (map user_id [row_jan31, row_basic])
   \<and> computeDueDate (invoice_status row_basic) (plan row_basic) (updated_at row_basic) = None
   \<and> row_basic \<in> set (snd (get_users plain_column (utc 2024 3 2) False False False
                               [row_jan31, row_basic]))"
proof -
  have a: "invoice_status row_basic \<noteq> ''paid''" and b: "invoice_status row_basic \<noteq> ''Free''"
    by (simp_all add: row_basic_def)
  have m: "row_basic \<in> set [row_jan31, row_basic]" by simp
  have d: "distinct (map user_id [row_jan31, row_basic])"
    by (simp add: row_basic_def row_jan31_def)
  from other_status_never_lapses [OF a b, of "[row_jan31, row_basic]" "utc 2024 3 2"
         plain_column False False False] a b m d
  show ?thesis by blast
qed

section \<open>The status update\<close>

text \<open>
  Claim C10. For a status other than "paid" (and not empty), with both statements
  succeeding and the id present, the handler still sends one mail to the subscriber,
  with neither subject nor body, whatever the transport does with it, and it answers
  200 "Status updated and email sent", the answer of the "paid" case.
\<close>

theorem non_paid_status_still_mails:
  assumes "st \<noteq> ''paid''" and "st \<noteq> []" and "\<not> err" and "\<not> err2"
    and "ident \<in> user_id ` set db"
  shows "(\<exists>user \<in> set db. user_id user = ident
            \<and> attempted (snd (update_status rule sendMail now err err2 ident (Some st) db)) =
                [\<lparr>mail_to = email user, mail_subject = None, mail_html = None\<rparr>])
     \<and> fst (update_status rule sendMail now err err2 ident (Some st) db) =
         Response 200 (Message_json ''Status updated and email sent'')
     \<and> fst (update_status rule sendMail now err err2 ident (Some st) db) =
         fst (update_status rule sendMail' now err err2 ident (Some ''paid'') db)"
proof -
  let ?found = "filter (\<lambda>u. user_id u = ident) db"
  from assms(5) have ne: "?found \<noteq> []"
    by (auto simp: filter_empty_conv)
  then have "hd ?found \<in> set ?found" by (rule hd_in_set)
  then have user: "hd ?found \<in> set db" "user_id (hd ?found) = ident" by auto
  note ok = update_status_done [OF assms(2-4) ne, of rule sendMail now]
  have paid: "update_status rule sendMail' now err err2 ident (Some ''paid'') db =
     (Response 200 (Message_json ''Status updated and email sent''),
      \<lparr>store = sql_update rule now (\<lambda>u. user_id u = ident)
                 (\<lambda>u. u\<lparr>invoice_status := ''paid''\<rparr>) db,
       attempted = [status_mail ''paid'' (hd ?found) now],
       console = [if sendMail' (status_mail ''paid'' (hd ?found) now)
                  then Email_sent else Email_sending_error]\<rparr>)"
    using assms(3,4) ne by (intro update_status_done) simp_all
  have att: "attempted (snd (update_status rule sendMail now err err2 ident (Some st) db)) =
      [\<lparr>mail_to = email (hd ?found), mail_subject = None, mail_html = None\<rparr>]"
    using assms(1) by (simp add: ok status_mail_not_paid)
  from user att have "\<exists>user \<in> set db. user_id user = ident
            \<and> attempted (snd (update_status rule sendMail now err err2 ident (Some st) db)) =
                [\<lparr>mail_to = email user, mail_subject = None, mail_html = None\<rparr>]"
    by blast
  moreover have "fst (update_status rule sendMail now err err2 ident (Some st) db) =
         Response 200 (Message_json ''Status updated and email sent'')"
    by (simp add: ok)
  moreover have "fst (update_status rule sendMail now err err2 ident (Some st) db) =
         fst (update_status rule sendMail' now err err2 ident (Some ''paid'') db)"
    by (simp add: ok paid)
  ultimately show ?thesis by blast
qed

theorem non_paid_status_still_mails_witness:
  "''pending'' \<noteq> ''paid'' \<and> ''pending'' \<noteq> [] \<and> (1::nat) \<in> user_id ` set [row_jan31, row_basic]
   \<and> attempted (snd (update_status plain_column delivering (utc 2024 2 1) False False 1
                        (Some ''pending'') [row_jan31, row_basic])) =
        [\<lparr>mail_to = ''ann@example.org'', mail_subject = None, mail_html = None\<rparr>]
   \<and> fst (update_status plain_column delivering (utc 2024 2 1) False False 1
            (Some ''pending'') [row_jan31, row_basic]) =
        Response 200 (Message_json ''Status updated and email sent'')"
proof -
  have a: "''pending'' \<noteq> ''paid''" and b: "''pending'' \<noteq> []" by simp_all
  have c: "(1::nat) \<in> user_id ` set [row_jan31, row_basic]"
    by (simp add: row_jan31_def)
  have f: "\<not> False" by simp
  have ids: "user_id row_jan31 = 1" "user_id row_basic \<noteq> 1" "email row_jan31 = ''ann@example.org''"
    by (simp_all add: row_jan31_def row_basic_def)
  from non_paid_status_still_mails [OF a b f f c, of plain_column delivering "utc 2024 2 1"]
    a b c ids
  show ?thesis by auto
qed

text \<open>
  What the status update leaves in the table. For a non-empty status and succeeding
  statements the table keeps its length and every row with another id; in a row with
  the target id the statement assigns \<open>invoice_status\<close> and nothing else, and
  \<open>updated_at\<close> is what the table's column rule gives. Under
  \<open>ON UPDATE CURRENT_TIMESTAMP\<close> that is the clock when the status changes and the
  old stamp when the status is set to the value it has.
\<close>

lemma status_update_frame:
  assumes "st \<noteq> []" and "\<not> err" and "\<not> err2" and "i < length db"
  shows "length (store (snd (update_status rule sendMail now err err2 ident (Some st) db)))
           = length db
     \<and> (user_id (db ! i) \<noteq> ident \<longrightarrow>
           store (snd (update_status rule sendMail now err err2 ident (Some st) db)) ! i = db ! i)
     \<and> (user_id (db ! i) = ident \<longrightarrow>
           store (snd (update_status rule sendMail now err err2 ident (Some st) db)) ! i =
             (db ! i)\<lparr>invoice_status := st,
                      updated_at := rule now (db ! i) ((db ! i)\<lparr>invoice_status := st\<rparr>)\<rparr>)"
proof (cases "filter (\<lambda>u. user_id u = ident) db = []")
  case True
  then have none: "\<And>u. u \<in> set db \<Longrightarrow> user_id u \<noteq> ident"
    by (auto simp: filter_empty_conv)
  from assms(4) have "db ! i \<in> set db" by simp
  with none have ni: "user_id (db ! i) \<noteq> ident" by blast
  from True assms(1-3)
  have "store (snd (update_status rule sendMail now err err2 ident (Some st) db)) = db"
    by (simp add: update_status_def Let_def)
  with ni show ?thesis by simp
next
  case False
  from update_status_done [OF assms(1-3) False, of rule sendMail now]
  have "store (snd (update_status rule sendMail now err err2 ident (Some st) db)) =
      sql_update rule now (\<lambda>u. user_id u = ident) (\<lambda>u. u\<lparr>invoice_status := st\<rparr>) db"
    by simp
  with assms(4) show ?thesis
    by (simp add: sql_update_length sql_update_nth)
qed

lemma status_update_stamps_changed_status:
  assumes "st \<noteq> []" and "\<not> err" and "\<not> err2" and "i < length db"
    and "user_id (db ! i) = ident" and "invoice_status (db ! i) \<noteq> st"
  shows "store (snd (update_status on_update_current_timestamp sendMail now err err2 ident
                       (Some st) db)) ! i =
           (db ! i)\<lparr>invoice_status := st, updated_at := now\<rparr>"
proof -
  have "(db ! i)\<lparr>invoice_status := st\<rparr> \<noteq> db ! i"
  proof
    assume "(db ! i)\<lparr>invoice_status := st\<rparr> = db ! i"
    then have "invoice_status ((db ! i)\<lparr>invoice_status := st\<rparr>) = invoice_status (db ! i)"
      by simp
    with assms(6) show False by simp
  qed
  with status_update_frame [OF assms(1-4), of on_update_current_timestamp sendMail now ident]
    assms(5)
  show ?thesis by (simp add: on_update_current_timestamp_def)
qed

lemma status_update_keeps_stamp_same_status:
  assumes "st \<noteq> []" and "\<not> err" and "\<not> err2" and "i < length db"
    and "user_id (db ! i) = ident" and "invoice_status (db ! i) = st"
  shows "store (snd (update_status on_update_current_timestamp sendMail now err err2 ident
                       (Some st) db)) ! i = db ! i"
proof -
  from assms(6) have "(db ! i)\<lparr>invoice_status := st\<rparr> = db ! i" by auto
  with status_update_frame [OF assms(1-4), of on_update_current_timestamp sendMail now ident]
    assms(5)
  show ?thesis by (simp add: on_update_current_timestamp_def)
qed

text \<open>
  Claim C5. The status update does not set the time of the status change to now for
  every status: it assigns \<open>invoice_status\<close> only. A subscriber on a monthly plan
  paid on 2024-01-31 and marked "paid" again on 2024-02-28 is mailed a subscription
  valid from 28 February to 28 March, while the row is left exactly as it was, stamp
  of 31 January included, and the listing of 1 March sets it to "pending". On a table
  with a plain \<open>updated_at\<close> column the stamp stays even when the status changes
  from "pending" to "paid".
\<close>

theorem renewal_keeps_stale_stamp:
  "attempted (snd (update_status on_update_current_timestamp delivering
                     (utc 2024 2 28 + 36000000) False False 1 (Some ''paid'')
                     [row_jan31, row_basic])) =
     [\<lparr>mail_to = ''ann@example.org'', mail_subject = Some ''Your Payment is Confirmed!'',
       mail_html = Some (Payment_confirmed ''Ann'' (2024, 1, 28) (2024, 2, 28))\<rparr>]
   \<and> store (snd (update_status on_update_current_timestamp delivering
                   (utc 2024 2 28 + 36000000) False False 1 (Some ''paid'')
                   [row_jan31, row_basic])) = [row_jan31, row_basic]
   \<and> updated_at row_jan31 = utc 2024 1 31 + 3600000
   \<and> utc 2024 1 31 + 3600000 \<noteq> utc 2024 2 28 + 36000000
   \<and> fst (get_users on_update_current_timestamp (utc 2024 3 1 + 32400000) False False False
            [row_jan31, row_basic]) =
       Response 200 (Users_json
         [row_jan31\<lparr>invoice_status := ''pending'', updated_at := utc 2024 3 1 + 32400000\<rparr>,
          row_basic])
   \<and> store (snd (update_status plain_column delivering
                   (utc 2024 2 28 + 36000000) False False 1 (Some ''paid'')
                   [row_jan31\<lparr>invoice_status := ''pending''\<rparr>, row_basic])) =
       [row_jan31, row_basic]"
proof -
  have a: "attempted (snd (update_status on_update_current_timestamp delivering
                     (utc 2024 2 28 + 36000000) False False 1 (Some ''paid'')
                     [row_jan31, row_basic])) =
     [\<lparr>mail_to = ''ann@example.org'', mail_subject = Some ''Your Payment is Confirmed!'',
       mail_html = Some (Payment_confirmed ''Ann'' (2024, 1, 28) (2024, 2, 28))\<rparr>]"
    by code_simp
  have b: "store (snd (update_status on_update_current_timestamp delivering
                   (utc 2024 2 28 + 36000000) False False 1 (Some ''paid'')
                   [row_jan31, row_basic])) = [row_jan31, row_basic]"
    by code_simp
  have c: "updated_at row_jan31 = utc 2024 1 31 + 3600000"
    by (simp add: row_jan31_def)
  have d: "utc 2024 1 31 + 3600000 \<noteq> utc 2024 2 28 + 36000000"
    by code_simp
  have e: "fst (get_users on_update_current_timestamp (utc 2024 3 1 + 32400000) False False False
            [row_jan31, row_basic]) =
       Response 200 (Users_json
         [row_jan31\<lparr>invoice_status := ''pending'', updated_at := utc 2024 3 1 + 32400000\<rparr>,
          row_basic])"
    by code_simp
  have f: "store (snd (update_status plain_column delivering
                   (utc 2024 2 28 + 36000000) False False 1 (Some ''paid'')
                   [row_jan31\<lparr>invoice_status := ''pending''\<rparr>, row_basic])) =
       [row_jan31, row_basic]"
    by code_simp
  from a b c d e f show ?thesis by blast
qed

section \<open>The three computations of the end of the paid period\<close>

text \<open>
  Claim C1. The listing, the status update and the reminder sweep each compute the end
  of a paid period, and they do not agree. For a monthly plan paid on 2024-01-31 the
  listing gives 2024-02-29 (the day is clamped to the month's length), while the
  status update and the sweep give 2024-03-02 (the day runs over into March). For a
  plan with none of the keywords the listing has no due date, while the status update
  and the sweep keep the start date as the end date.
\<close>

theorem due_date_differs_between_sites:
  "computeDueDate ''paid'' ''Monthly'' (utc 2024 1 31) = Some (utc 2024 2 29)
   \<and> reminder_endDate ''Monthly'' (utc 2024 1 31) = utc 2024 3 2
   \<and> status_endDate ''paid'' ''Monthly'' (utc 2024 1 31) = utc 2024 3 2
   \<and> computeDueDate ''paid'' ''Basic'' (utc 2024 1 31) = None
   \<and> reminder_endDate ''Basic'' (utc 2024 1 31) = utc 2024 1 31
   \<and> status_endDate ''paid'' ''Basic'' (utc 2024 1 31) = utc 2024 1 31"
proof -
  have a: "computeDueDate ''paid'' ''Monthly'' (utc 2024 1 31) = Some (utc 2024 2 29)"
    by code_simp
  have b: "reminder_endDate ''Monthly'' (utc 2024 1 31) = utc 2024 3 2"
    by code_simp
  have c: "status_endDate ''paid'' ''Monthly'' (utc 2024 1 31) = utc 2024 3 2"
    by code_simp
  have d: "computeDueDate ''paid'' ''Basic'' (utc 2024 1 31) = None"
    by code_simp
  have e: "reminder_endDate ''Basic'' (utc 2024 1 31) = utc 2024 1 31"
    by code_simp
  have f: "status_endDate ''paid'' ''Basic'' (utc 2024 1 31) = utc 2024 1 31"
    by code_simp
  from a b c d e f show ?thesis by blast
qed

section \<open>The reminder sweep\<close>

text \<open>
  Claim C3. The sweep fires on the day two days before its own end date, which is not
  always the due date of the listing. For the monthly plan paid on 2024-01-31 the due
  date 2024-02-29 is exactly two days after 2024-02-27, and the sweep of that morning
  sends nothing; the sweep of 2024-02-29, the due date itself, sends the reminder. A
  plan with none of the keywords has no due date, yet the sweep takes its start date as
  end date and finds a reminder due two days before it.
\<close>

theorem reminder_day_differs_from_due_date:
  "computeDueDate ''paid'' (plan row_jan31) (updated_at row_jan31) = Some (utc 2024 2 29)
   \<and> utc 2024 2 29 - startOfDay (utc 2024 2 27 + 32400000) = 2 * msPerDay
   \<and> reminders (sendReminderEmails delivering ''admin@example.org''
                  (utc 2024 2 27 + 32400000) False [row_jan31]) = []
   \<and> utc 2024 2 29 - startOfDay (utc 2024 2 29 + 32400000) = 0
   \<and> map mail_to (reminders (sendReminderEmails delivering ''admin@example.org''
                           (utc 2024 2 29 + 32400000) False [row_jan31])) =
        [''ann@example.org'', ''admin@example.org'']
   \<and> computeDueDate ''paid'' ''Basic'' (utc 2024 3 2) = None
   \<and> isReminderDue ''Basic'' (utc 2024 3 2) (startOfDay (utc 2024 2 29 + 32400000))"
proof -
  have a: "computeDueDate ''paid'' (plan row_jan31) (updated_at row_jan31) = Some (utc 2024 2 29)"
    by code_simp
  have b: "utc 2024 2 29 - startOfDay (utc 2024 2 27 + 32400000) = 2 * msPerDay"
    by code_simp
  have c: "reminders (sendReminderEmails delivering ''admin@example.org''
                  (utc 2024 2 27 + 32400000) False [row_jan31]) = []"
    by code_simp
  have d: "utc 2024 2 29 - startOfDay (utc 2024 2 29 + 32400000) = 0"
    by code_simp
  have e: "map mail_to (reminders (sendReminderEmails delivering ''admin@example.org''
                           (utc 2024 2 29 + 32400000) False [row_jan31])) =
        [''ann@example.org'', ''admin@example.org'']"
    by code_simp
  have f: "computeDueDate ''paid'' ''Basic'' (utc 2024 3 2) = None"
    by code_simp
  have g: "isReminderDue ''Basic'' (utc 2024 3 2) (startOfDay (utc 2024 2 29 + 32400000))"
    by code_simp
  from a b c d e f g show ?thesis by blast
qed

text \<open>
  Claim C9. When the send for a subscriber is rejected, the loop records the failure
  and goes on: the mails attempted and the console lines for the rest of the rows are
  those of every row of the rest whose reminder is due, and the whole job attempts a
  mail for every "paid" row due on that day.
\<close>

theorem failed_send_keeps_sweep_going:
  assumes "isReminderDue (plan u) (updated_at u) today" and "\<not> sendMail (reminder_mail u)"
  shows "reminders (reminder_loop sendMail today (pre @ u # rest) s) =
           reminders (reminder_loop sendMail today pre s) @ reminder_mail u #
             map reminder_mail (filter (\<lambda>v. isReminderDue (plan v) (updated_at v) today) rest)
     \<and> lines (reminder_loop sendMail today (pre @ u # rest) s) =
           lines (reminder_loop sendMail today pre s) @ Reminder_failed (email u) #
             map (\<lambda>v. if sendMail (reminder_mail v) then Reminder_sent (email v)
                       else Reminder_failed (email v))
               (filter (\<lambda>v. isReminderDue (plan v) (updated_at v) today) rest)
     \<and> (\<exists>summary. reminders (sendReminderEmails sendMail self now False db) =
           map reminder_mail
             (filter (\<lambda>v. isReminderDue (plan v) (updated_at v) (startOfDay now))
                (filter (\<lambda>v. invoice_status v = ''paid'') db)) @ summary)"
proof -
  let ?s1 = "reminder_loop sendMail today pre s"
  have split: "reminder_loop sendMail today (pre @ u # rest) s =
      reminder_loop sendMail today (u # rest) ?s1"
    by (rule reminder_loop_append)
  have a: "reminders (reminder_loop sendMail today (u # rest) ?s1) =
      reminders ?s1 @ reminder_mail u #
        map reminder_mail (filter (\<lambda>v. isReminderDue (plan v) (updated_at v) today) rest)"
    using assms(1) by (simp add: reminder_loop_reminders)
  have b: "lines (reminder_loop sendMail today (u # rest) ?s1) =
      lines ?s1 @ Reminder_failed (email u) #
        map (\<lambda>v. if sendMail (reminder_mail v) then Reminder_sent (email v)
                  else Reminder_failed (email v))
          (filter (\<lambda>v. isReminderDue (plan v) (updated_at v) today) rest)"
    using assms by (simp add: reminder_loop_lines)
  from split a b sendReminderEmails_reminders [of sendMail self now db]
  show ?thesis by simp
qed

theorem failed_send_keeps_sweep_going_witness:
  "isReminderDue (plan row_jan31) (updated_at row_jan31) (utc 2024 2 29)
   \<and> \<not> failing (reminder_mail row_jan31)
   \<and> reminders (reminder_loop failing (utc 2024 2 29) [row_jan31, row_yearly]
        \<lparr>upcomingPayments = [], reminders = [], lines = []\<rparr>) =
      [reminder_mail row_jan31, reminder_mail row_yearly]
   \<and> lines (reminder_loop failing (utc 2024 2 29) [row_jan31, row_yearly]
        \<lparr>upcomingPayments = [], reminders = [], lines = []\<rparr>) =
      [Reminder_failed ''ann@example.org'', Reminder_failed ''cy@example.org'']"
proof -
  have f: "\<not> failing (reminder_mail row_jan31)" by (simp add: failing_def)
  have e: "email row_jan31 = ''ann@example.org''" "email row_yearly = ''cy@example.org''"
    by (simp_all add: row_jan31_def row_yearly_def)
  from failed_send_keeps_sweep_going
         [where u = row_jan31 and sendMail = failing and today = "utc 2024 2 29"
            and pre = "[]" and rest = "[row_yearly]"
            and s = "\<lparr>upcomingPayments = [], reminders = [], lines = []\<rparr>",
          OF due_jan31 f]
       due_jan31 due_yearly e
  show ?thesis by (simp add: failing_def)
qed

end
